theory Spec2Isabelle
  imports Complex_Main "HOL-Library.AList" "HOL-Library.Word"
begin

section \<open>JavaScript values\<close>

text \<open>
  The handlers of the payment backend work on JSON values: request bodies, query strings,
  the provider's replies and the documents of the \<open>payments\<close> collection. A value is
  modelled by \<open>jsval\<close>. An object is an association list in insertion order; a lookup
  takes the first binding of a key. A string is the sequence of its UTF-8 bytes.
  \<open>JNum\<close> carries a safe integer, a signed word of 54 bits (from \<open>-2^53\<close> up to
  \<open>2^53 - 1\<close>): every such number is a double, two of them are equal as
  doubles exactly when they are equal, and \<open>String\<close> prints its decimal digits. The
  type has no other JSON number (a fraction, a larger magnitude). \<open>JUndefined\<close> is the
  value of a missing property; it does not occur inside a value that was parsed from JSON.
  \<open>JTimestamp\<close> is a timestamp assigned by the store
  (\<open>FieldValue.serverTimestamp()\<close>), in milliseconds.
\<close>

datatype jsval =
    JUndefined
  | JNull
  | JBool bool
  | JNum "54 word"
  | JStr string
  | JArr "jsval list"
  | JObj "(string \<times> jsval) list"
  | JTimestamp int

text \<open>The result of \<open>Number(v)\<close>: a double is \<open>NaN\<close>, an infinity, or a finite
  value, a rational.\<close>

datatype jsnum = NaN | PosInf | NegInf | Fin rat

text \<open>What a \<open>throw\<close> inside a handler can carry.\<close>

datatype js_error =
    TypeError
  | FetchError
  | JsonParseError
  | KashierVerifyFailed nat jsval
  | InvalidDocument

text \<open>\<open>!v\<close> is \<open>\<not> truthy v\<close>.\<close>

fun truthy :: "jsval \<Rightarrow> bool" where
  "truthy JUndefined = False"
| "truthy JNull = False"
| "truthy (JBool b) = b"
| "truthy (JNum n) = (n \<noteq> 0)"
| "truthy (JStr s) = (s \<noteq> [])"
| "truthy (JArr xs) = True"
| "truthy (JObj kvs) = True"
| "truthy (JTimestamp t) = True"

text \<open>\<open>a || b\<close> and \<open>a && b\<close>.\<close>

definition js_or :: "jsval \<Rightarrow> jsval \<Rightarrow> jsval" where
  "js_or a b = (if truthy a then a else b)"

definition js_and :: "jsval \<Rightarrow> jsval \<Rightarrow> jsval" where
  "js_and a b = (if truthy a then b else a)"

text \<open>
  \<open>v.k\<close> for the property names the handlers read. None of them is an index,
  \<open>length\<close> or a name inherited from a prototype, so a value that is not an object has
  no such property. The handlers read \<open>v.k\<close> of a \<open>null\<close> only in the places where the
  model raises \<open>TypeError\<close> itself; everywhere else the base is guarded
  (\<open>a && a.k\<close>, \<open>a?.k\<close>, \<open>a || {}\<close>).
\<close>

fun get :: "jsval \<Rightarrow> string \<Rightarrow> jsval" where
  "get (JObj kvs) k = (case map_of kvs k of None \<Rightarrow> JUndefined | Some v \<Rightarrow> v)"
| "get v k = JUndefined"

text \<open>A destructuring default \<open>{k = d}\<close> applies to \<open>undefined\<close> only.\<close>

definition dflt :: "jsval \<Rightarrow> jsval \<Rightarrow> jsval" where
  "dflt v d = (if v = JUndefined then d else v)"

text \<open>
  \<open>a !== b\<close> where one side was read from a stored document and the other from a
  provider reply: two objects or arrays are never the same reference.
\<close>

fun is_primitive :: "jsval \<Rightarrow> bool" where
  "is_primitive (JArr xs) = False"
| "is_primitive (JObj kvs) = False"
| "is_primitive (JTimestamp t) = False"
| "is_primitive v = True"

definition strict_neq :: "jsval \<Rightarrow> jsval \<Rightarrow> bool" where
  "strict_neq a b = (\<not> (is_primitive a \<and> a = b))"

subsection \<open>Conversion to string\<close>

text \<open>The decimal digits of an integer that is not negative.\<close>

function show_digits :: "int \<Rightarrow> string" where
  "show_digits n =
     (if n < 10 then [''0123456789'' ! nat n]
      else show_digits (n div 10) @ [''0123456789'' ! nat (n mod 10)])"
  by pat_completeness auto

termination
  by (relation "measure nat") auto

declare show_digits.simps [simp del]

definition show_int :: "int \<Rightarrow> string" where
  "show_int i = (if i < 0 then CHR ''-'' # show_digits (- i) else show_digits i)"

fun join_comma :: "string option list \<Rightarrow> string option" where
  "join_comma [] = Some []"
| "join_comma [x] = x"
| "join_comma (x # y # ys) =
     (case x of None \<Rightarrow> None
      | Some s \<Rightarrow> (case join_comma (y # ys) of None \<Rightarrow> None
                  | Some r \<Rightarrow> Some (s @ '','' @ r)))"

text \<open>
  \<open>String(v)\<close> and the conversion of a template literal. \<open>None\<close> is the
  \<open>TypeError\<close> of an object that has an own property \<open>toString\<close>: a JSON value is
  never callable, and the inherited \<open>valueOf\<close> returns the object itself. An array is
  joined with commas, \<open>null\<close> and \<open>undefined\<close> elements as the empty string.
\<close>

fun String_js :: "jsval \<Rightarrow> string option" where
  "String_js JUndefined = Some ''undefined''"
| "String_js JNull = Some ''null''"
| "String_js (JBool b) = Some (if b then ''true'' else ''false'')"
| "String_js (JNum n) = Some (show_int (sint n))"
| "String_js (JStr s) = Some s"
| "String_js (JArr xs) =
     join_comma (map (\<lambda>x. if x = JNull \<or> x = JUndefined then Some [] else String_js x) xs)"
| "String_js (JObj kvs) =
     (if ''toString'' \<in> fst ` set kvs then None else Some ''[object Object]'')"
| "String_js (JTimestamp t) = Some ''[object Object]''"

subsection \<open>Conversion to number\<close>

text \<open>
  The white space and line terminators that \<open>StringToNumber\<close> trims, as UTF-8:
  TAB, LF, VT, FF, CR, SP, U+00A0, U+1680, U+2000 to U+200A, U+2028, U+2029, U+202F,
  U+205F, U+3000, U+FEFF.
\<close>

definition ws_seqs :: "string list" where
  "ws_seqs =
     [ [CHR 0x09], [CHR 0x0A], [CHR 0x0B], [CHR 0x0C], [CHR 0x0D], [CHR 0x20],
       [CHR 0xC2, CHR 0xA0], [CHR 0xE1, CHR 0x9A, CHR 0x80],
       [CHR 0xE2, CHR 0x80, CHR 0x80], [CHR 0xE2, CHR 0x80, CHR 0x81],
       [CHR 0xE2, CHR 0x80, CHR 0x82], [CHR 0xE2, CHR 0x80, CHR 0x83],
       [CHR 0xE2, CHR 0x80, CHR 0x84], [CHR 0xE2, CHR 0x80, CHR 0x85],
       [CHR 0xE2, CHR 0x80, CHR 0x86], [CHR 0xE2, CHR 0x80, CHR 0x87],
       [CHR 0xE2, CHR 0x80, CHR 0x88], [CHR 0xE2, CHR 0x80, CHR 0x89],
       [CHR 0xE2, CHR 0x80, CHR 0x8A], [CHR 0xE2, CHR 0x80, CHR 0xA8],
       [CHR 0xE2, CHR 0x80, CHR 0xA9], [CHR 0xE2, CHR 0x80, CHR 0xAF],
       [CHR 0xE2, CHR 0x81, CHR 0x9F], [CHR 0xE3, CHR 0x80, CHR 0x80],
       [CHR 0xEF, CHR 0xBB, CHR 0xBF] ]"

text \<open>Strip the sequences \<open>ws\<close> from the front of a string, at most \<open>n\<close> times.\<close>

fun strip_front :: "string list \<Rightarrow> nat \<Rightarrow> string \<Rightarrow> string" where
  "strip_front ws 0 s = s"
| "strip_front ws (Suc n) s =
     (case find (\<lambda>w. take (length w) s = w) ws of
        None \<Rightarrow> s
      | Some w \<Rightarrow> strip_front ws n (drop (length w) s))"

definition trim :: "string \<Rightarrow> string" where
  "trim s =
     (let t = strip_front ws_seqs (length s) s
      in rev (strip_front (map rev ws_seqs) (length t) (rev t)))"

definition digit_of :: "nat \<Rightarrow> char \<Rightarrow> nat option" where
  "digit_of b c =
     (let n = of_char c :: nat;
          d = (if 48 \<le> n \<and> n \<le> 57 then Some (n - 48)
               else if 97 \<le> n \<and> n \<le> 102 then Some (n - 87)
               else if 65 \<le> n \<and> n \<le> 70 then Some (n - 55)
               else None)
      in case d of None \<Rightarrow> None | Some v \<Rightarrow> if v < b then Some v else None)"

definition is_dec :: "char \<Rightarrow> bool" where
  "is_dec c = (digit_of 10 c \<noteq> None)"

text \<open>The value of a non-empty run of digits in base \<open>b\<close>.\<close>

definition parse_digits :: "nat \<Rightarrow> string \<Rightarrow> int option" where
  "parse_digits b s =
     (if s \<noteq> [] \<and> list_all (\<lambda>c. digit_of b c \<noteq> None) s
      then Some (foldl (\<lambda>a c. a * int b + int (the (digit_of b c))) 0 s)
      else None)"

subsection \<open>Rounding to a double\<close>

text \<open>The number of binary digits of a positive integer.\<close>

function bits :: "int \<Rightarrow> nat" where
  "bits n = (if n \<le> 0 then 0 else Suc (bits (n div 2)))"
  by pat_completeness auto

termination
  by (relation "measure nat") auto

declare bits.simps [simp del]

definition pow2 :: "int \<Rightarrow> rat" where
  "pow2 e = (if 0 \<le> e then 2 ^ nat e else 1 / 2 ^ nat (- e))"

text \<open>For \<open>a > 0\<close>, the exponent \<open>e\<close> with \<open>2^e \<le> a < 2^(e+1)\<close>.\<close>

definition floor_log2 :: "rat \<Rightarrow> int" where
  "floor_log2 a =
     (if 1 \<le> a then int (bits \<lfloor>a\<rfloor>) - 1
      else - int (bits (\<lceil>1 / a\<rceil> - 1)))"

definition round_half_even :: "rat \<Rightarrow> int" where
  "round_half_even x =
     (let f = \<lfloor>x\<rfloor>; d = x - of_int f
      in if d < 1 / 2 then f
         else if 1 / 2 < d then f + 1
         else if even f then f else f + 1)"

text \<open>
  The IEEE 754 double nearest to a rational, ties to the even significand: 53 bits of
  significand from \<open>2^-1022\<close> on, multiples of \<open>2^-1074\<close> below, an infinity when
  the rounded value reaches \<open>2^1024\<close>. A value that rounds to zero is \<open>Fin 0\<close> (the
  sign of a zero plays no part in a comparison).
\<close>

definition to_double :: "rat \<Rightarrow> jsnum" where
  "to_double r =
     (if r = 0 then Fin 0
      else
        let a = \<bar>r\<bar>;
            e = floor_log2 a;
            q = (if e < - 1022 then - 1074 else e - 52);
            v = of_int (round_half_even (a / pow2 q)) * pow2 q
        in if 2 ^ 1024 \<le> v then (if r < 0 then NegInf else PosInf)
           else Fin (if r < 0 then - v else v))"

subsection \<open>Conversion of a string to a number\<close>

definition pow10 :: "int \<Rightarrow> rat" where
  "pow10 e = (if 0 \<le> e then 10 ^ nat e else 1 / 10 ^ nat (- e))"

text \<open>\<open>ExponentPart\<close>, optional: \<open>e\<close> or \<open>E\<close>, a sign, digits.\<close>

definition exponent_part :: "string \<Rightarrow> int option" where
  "exponent_part s =
     (case s of
        [] \<Rightarrow> Some 0
      | c # t \<Rightarrow>
          if c = CHR ''e'' \<or> c = CHR ''E'' then
            (case t of
               [] \<Rightarrow> None
             | d # u \<Rightarrow>
                 if d = CHR ''+'' then parse_digits 10 u
                 else if d = CHR ''-'' then map_option uminus (parse_digits 10 u)
                 else parse_digits 10 t)
          else None)"

text \<open>
  The double of the decimal \<open>m * 10^x\<close> whose significand \<open>m \<ge> 0\<close> is written with
  \<open>len\<close> digits. Below \<open>10^-330\<close> it is zero and from \<open>10^311\<close> on it is an
  infinity; the two tests keep the power of ten out of the evaluation when the exponent
  is extreme.
\<close>

definition decimal_double :: "int \<Rightarrow> nat \<Rightarrow> int \<Rightarrow> jsnum" where
  "decimal_double m len x =
     (if m = 0 then Fin 0
      else if int len + x < - 330 then Fin 0
      else if 310 < x then PosInf
      else to_double (of_int m * pow10 x))"

text \<open>\<open>StrUnsignedDecimalLiteral\<close>: \<open>Infinity\<close>, or digits with an optional
  fraction and exponent, at least one digit before the exponent.\<close>

definition unsigned_decimal :: "string \<Rightarrow> jsnum" where
  "unsigned_decimal s =
     (if s = ''Infinity'' then PosInf
      else
        let ip = takeWhile is_dec s;
            r1 = dropWhile is_dec s;
            dot = (r1 \<noteq> [] \<and> hd r1 = CHR ''.'');
            fp = (if dot then takeWhile is_dec (tl r1) else []);
            r2 = (if dot then dropWhile is_dec (tl r1) else r1)
        in if ip = [] \<and> fp = [] then NaN
           else (case exponent_part r2 of
                   None \<Rightarrow> NaN
                 | Some e \<Rightarrow>
                     decimal_double (the (parse_digits 10 (ip @ fp))) (length (ip @ fp))
                       (e - int (length fp))))"

definition neg_num :: "jsnum \<Rightarrow> jsnum" where
  "neg_num x = (case x of NaN \<Rightarrow> NaN | PosInf \<Rightarrow> NegInf | NegInf \<Rightarrow> PosInf | Fin r \<Rightarrow> Fin (- r))"

definition radix_literal :: "nat \<Rightarrow> string \<Rightarrow> jsnum" where
  "radix_literal b s =
     (case parse_digits b s of None \<Rightarrow> NaN | Some n \<Rightarrow> to_double (of_int n))"

text \<open>
  \<open>StringToNumber\<close>: white space and line terminators are trimmed, the empty
  string is 0, then a hexadecimal, octal or binary integer, or a signed decimal; anything
  else is \<open>NaN\<close>. The value of the literal is rounded to the nearest double.
\<close>

definition StringToNumber :: "string \<Rightarrow> jsnum" where
  "StringToNumber s =
     (let t = trim s
      in if t = [] then Fin 0
         else if take 2 t = ''0x'' \<or> take 2 t = ''0X'' then radix_literal 16 (drop 2 t)
         else if take 2 t = ''0o'' \<or> take 2 t = ''0O'' then radix_literal 8 (drop 2 t)
         else if take 2 t = ''0b'' \<or> take 2 t = ''0B'' then radix_literal 2 (drop 2 t)
         else if hd t = CHR ''+'' then unsigned_decimal (tl t)
         else if hd t = CHR ''-'' then neg_num (unsigned_decimal (tl t))
         else unsigned_decimal t)"

text \<open>
  \<open>Number(v)\<close>. \<open>None\<close> is the \<open>TypeError\<close> of an object with an own
  \<open>toString\<close>; any other object converts through \<open>"[object Object]"\<close> to \<open>NaN\<close>,
  an array through its joined string. \<open>Number\<close> is applied to a field of the request
  body only, never to a store timestamp.
\<close>

fun Number_js :: "jsval \<Rightarrow> jsnum option" where
  "Number_js JUndefined = Some NaN"
| "Number_js JNull = Some (Fin 0)"
| "Number_js (JBool b) = Some (Fin (if b then 1 else 0))"
| "Number_js (JNum n) = Some (Fin (of_int (sint n)))"
| "Number_js (JStr s) = Some (StringToNumber s)"
| "Number_js (JArr xs) = map_option StringToNumber (String_js (JArr xs))"
| "Number_js (JObj kvs) = map_option StringToNumber (String_js (JObj kvs))"
| "Number_js (JTimestamp t) = Some NaN"

text \<open>\<open>x <= 0\<close> on numbers: every comparison with \<open>NaN\<close> is false.\<close>

fun num_le0 :: "jsnum \<Rightarrow> bool" where
  "num_le0 NaN = False"
| "num_le0 PosInf = False"
| "num_le0 NegInf = True"
| "num_le0 (Fin r) = (r \<le> 0)"

text \<open>\<open>x > 0\<close> on numbers.\<close>

fun num_gt0 :: "jsnum \<Rightarrow> bool" where
  "num_gt0 NaN = False"
| "num_gt0 PosInf = True"
| "num_gt0 NegInf = False"
| "num_gt0 (Fin r) = (0 < r)"

text \<open>
  \<open>s.toUpperCase()\<close>, as far as it is ASCII. The characters whose upper case consists
  of ASCII letters are \<open>a\<close> to \<open>z\<close>, U+0131 (dotless i, to \<open>I\<close>), U+017F (long s, to
  \<open>S\<close>), U+00DF (sharp s, to \<open>SS\<close>) and the ligatures U+FB00 to U+FB06 (to \<open>FF\<close>,
  \<open>FI\<close>, \<open>FL\<close>, \<open>FFI\<close>, \<open>FFL\<close>, \<open>ST\<close>, \<open>ST\<close>); they are mapped as JavaScript
  maps them. Any other character has an upper case with a character outside ASCII, or is
  its own upper case; its bytes are kept. So the result is an ASCII word exactly when the
  JavaScript result is that word, which is what the comparison with the success states
  needs.
\<close>

definition upper_char :: "char \<Rightarrow> char" where
  "upper_char c =
     (case map_of (zip ''abcdefghijklmnopqrstuvwxyz'' ''ABCDEFGHIJKLMNOPQRSTUVWXYZ'') c of
        None \<Rightarrow> c | Some u \<Rightarrow> u)"

definition upper_special :: "(string \<times> string) list" where
  "upper_special =
     [([CHR 0xC4, CHR 0xB1], ''I''),
      ([CHR 0xC5, CHR 0xBF], ''S''),
      ([CHR 0xC3, CHR 0x9F], ''SS''),
      ([CHR 0xEF, CHR 0xAC, CHR 0x80], ''FF''),
      ([CHR 0xEF, CHR 0xAC, CHR 0x81], ''FI''),
      ([CHR 0xEF, CHR 0xAC, CHR 0x82], ''FL''),
      ([CHR 0xEF, CHR 0xAC, CHR 0x83], ''FFI''),
      ([CHR 0xEF, CHR 0xAC, CHR 0x84], ''FFL''),
      ([CHR 0xEF, CHR 0xAC, CHR 0x85], ''ST''),
      ([CHR 0xEF, CHR 0xAC, CHR 0x86], ''ST'')]"

fun upper_from :: "nat \<Rightarrow> string \<Rightarrow> string" where
  "upper_from 0 s = s"
| "upper_from (Suc n) s =
     (case s of
        [] \<Rightarrow> []
      | c # cs \<Rightarrow>
          (case find (\<lambda>(w, u). take (length w) s = w) upper_special of
             Some (w, u) \<Rightarrow> u @ upper_from n (drop (length w) s)
           | None \<Rightarrow> upper_char c # upper_from n cs))"

definition toUpperCase :: "string \<Rightarrow> string" where
  "toUpperCase s = upper_from (length s) s"

section \<open>The payments collection\<close>

text \<open>
  The document store is an external collaborator. The collection \<open>payments\<close> is the
  list of its documents, in the order in which a query returns them; a document is the
  association list of its fields, and a document reference is its position. The store is
  initialised and reachable: the bootstrap of the handle and failures of the service are
  outside the model. \<open>add\<close> puts the new document last.
\<close>

type_synonym doc = "(string \<times> jsval) list"

type_synonym store = "doc list"

text \<open>The value at a field path such as \<open>response._id\<close>, if the document has it.\<close>

fun field_at :: "string list \<Rightarrow> jsval \<Rightarrow> jsval option" where
  "field_at [] v = Some v"
| "field_at (k # ks) (JObj kvs) =
     (case map_of kvs k of None \<Rightarrow> None | Some v \<Rightarrow> field_at ks v)"
| "field_at (k # ks) v = None"

fun find_from :: "nat \<Rightarrow> doc list \<Rightarrow> string list \<Rightarrow> jsval \<Rightarrow> (nat \<times> doc) option" where
  "find_from n [] p v = None"
| "find_from n (d # ds) p v =
     (if field_at p (JObj d) = Some v then Some (n, d) else find_from (Suc n) ds p v)"

text \<open>\<open>collection("payments").where(p, "==", v).limit(1).get()\<close>: the first
  document whose field \<open>p\<close> is \<open>v\<close>, with its reference; \<open>None\<close> is the empty
  snapshot.\<close>

definition where_limit1 :: "store \<Rightarrow> string list \<Rightarrow> jsval \<Rightarrow> (nat \<times> doc) option" where
  "where_limit1 st p v = find_from 0 st p v"

text \<open>The store after a document that the client accepted was added.\<close>

definition add_doc :: "store \<Rightarrow> doc \<Rightarrow> store" where
  "add_doc st d = st @ [d]"

definition update_fields :: "doc \<Rightarrow> doc \<Rightarrow> doc" where
  "update_fields d upd = fold (\<lambda>(k, v). AList.update k v) upd d"

text \<open>The store after an update that the client accepted was applied to the document
  at position \<open>i\<close>, which a query has just returned.\<close>

definition update_doc :: "store \<Rightarrow> nat \<Rightarrow> doc \<Rightarrow> store" where
  "update_doc st i upd = st[i := update_fields (st ! i) upd]"

text \<open>
  The client validates the data of a write before it sends anything: the handle is
  created without \<open>ignoreUndefinedProperties\<close>, so a field whose value is
  \<open>undefined\<close> makes \<open>add\<close> and \<open>update\<close> throw, and nothing is written. The
  values that the handlers write are parsed from JSON apart from the fields they compute,
  so the field itself is the only place where \<open>undefined\<close> can stand. The other
  limits of the store (the size of a document, an array directly inside an array, reserved
  field names) are outside the model.
\<close>

definition storable :: "doc \<Rightarrow> bool" where
  "storable d = list_all (\<lambda>(k, v). v \<noteq> JUndefined) d"

text \<open>\<open>collection("payments").add(d)\<close> and \<open>doc.ref.update(upd)\<close>: \<open>Inl\<close> is the
  throw of a rejected write.\<close>

definition firestore_add :: "store \<Rightarrow> doc \<Rightarrow> js_error + store" where
  "firestore_add st d = (if storable d then Inr (add_doc st d) else Inl InvalidDocument)"

definition firestore_update :: "store \<Rightarrow> nat \<Rightarrow> doc \<Rightarrow> js_error + store" where
  "firestore_update st i upd =
     (if storable upd then Inr (update_doc st i upd) else Inl InvalidDocument)"

section \<open>The environment\<close>

text \<open>
  What a handler does to the outside is recorded as a list of effects, in order:
  the calls to the payment provider, the queries and writes on the store, and the post
  to the Apps Script endpoint. A write that the client rejects reaches nothing and is no
  effect.
\<close>

datatype effect =
    KashierCreate string jsval
  | KashierVerify string
  | StoreQuery "string list" jsval
  | StoreAdd doc
  | StoreUpdate nat doc
  | AppsScriptPost string jsval

fun is_write :: "effect \<Rightarrow> bool" where
  "is_write (StoreAdd d) = True"
| "is_write (StoreUpdate i upd) = True"
| "is_write e = False"

fun is_verify :: "effect \<Rightarrow> bool" where
  "is_verify (KashierVerify url) = True"
| "is_verify e = False"

fun is_create :: "effect \<Rightarrow> bool" where
  "is_create (KashierCreate url payload) = True"
| "is_create e = False"

fun is_query :: "effect \<Rightarrow> bool" where
  "is_query (StoreQuery p v) = True"
| "is_query e = False"

fun is_dispatch :: "effect \<Rightarrow> bool" where
  "is_dispatch (AppsScriptPost url payload) = True"
| "is_dispatch e = False"

text \<open>The \<open>status\<close> field that a write sets.\<close>

fun written_status :: "effect \<Rightarrow> jsval" where
  "written_status (StoreAdd d) = get (JObj d) ''status''"
| "written_status (StoreUpdate i upd) = get (JObj upd) ''status''"
| "written_status e = JUndefined"

text \<open>
  The reply to a \<open>fetch\<close> whose body is read with \<open>resp.json()\<close>: the call throws,
  or it returns a status code and a body, \<open>None\<close> when the body is not JSON. The reply
  to the post whose body is read with \<open>resp.text()\<close> carries the text.
\<close>

datatype json_reply = FetchThrows | Reply nat "jsval option"

datatype text_reply = PostThrows | TextReply nat string

text \<open>\<open>resp.ok\<close>.\<close>

definition ok :: "nat \<Rightarrow> bool" where
  "ok code = (200 \<le> code \<and> code < 300)"

text \<open>
  The process environment, the clock and the remote services. The provider and the
  Apps Script endpoint are functions of the request they receive (the credentials in the
  headers are part of the provider). \<open>date_now\<close> is \<open>Date.now()\<close>, one instant for
  the whole request, a time value in milliseconds and so a safe integer;
  \<open>toISOString\<close> is the formatting of a time value, and \<open>serverTimestamp\<close> the time
  the store assigns to a write.
\<close>

record env =
  KASHIER_MODE :: "string option"
  KASHIER_MERCHANT_ID :: "string option"
  SERVER_BASE :: "string option"
  APPSCRIPT_URL :: "string option"
  APPSCRIPT_TOKEN :: "string option"
  date_now :: "54 word"
  toISOString :: "int \<Rightarrow> string"
  serverTimestamp :: int
  kashier_post :: "string \<Rightarrow> jsval \<Rightarrow> json_reply"
  kashier_get :: "string \<Rightarrow> json_reply"
  appscript_post :: "string \<Rightarrow> jsval \<Rightarrow> text_reply"

definition env_val :: "string option \<Rightarrow> jsval" where
  "env_val x = (case x of None \<Rightarrow> JUndefined | Some s \<Rightarrow> JStr s)"

text \<open>
  A response is its status code and its body: \<open>res.json(v)\<close>, \<open>res.send(text)\<close>, or
  the \<open>{error: String(err)}\<close> of a handler's outer \<open>catch\<close>. \<open>Json v\<close> holds the
  value given to \<open>res.json\<close>; a field that is \<open>undefined\<close> is not serialised.
\<close>

datatype body = Json jsval | Text string | ErrorJson js_error

type_synonym response = "nat \<times> body"

type_synonym outcome = "response \<times> store \<times> effect list"

definition error_json :: "string \<Rightarrow> body" where
  "error_json msg = Json (JObj [(''error'', JStr msg)])"

section \<open>Gateway client\<close>

definition kashier_base :: "env \<Rightarrow> string" where
  "kashier_base e =
     (if KASHIER_MODE e = Some ''live'' then ''https://api.kashier.io''
      else ''https://test-api.kashier.io'')"

text \<open>
  \<open>fetchKashierSession(sessionId)\<close>: the GET of the session's payment. Every throw
  inside it (the conversion of \<open>sessionId\<close> in the URL, the \<open>fetch\<close>, \<open>resp.json()\<close>,
  a reply that is not \<open>ok\<close>) is an \<open>Inl\<close>.
\<close>

definition fetchKashierSession :: "env \<Rightarrow> jsval \<Rightarrow> (js_error + jsval) \<times> effect list" where
  "fetchKashierSession e sessionId =
     (case String_js sessionId of
        None \<Rightarrow> (Inl TypeError, [])
      | Some sid \<Rightarrow>
          let url = kashier_base e @ ''/v3/payment/sessions/'' @ sid @ ''/payment''
          in (case kashier_get e url of
                FetchThrows \<Rightarrow> (Inl FetchError, [KashierVerify url])
              | Reply code None \<Rightarrow> (Inl JsonParseError, [KashierVerify url])
              | Reply code (Some data) \<Rightarrow>
                  if \<not> ok code then (Inl (KashierVerifyFailed code data), [KashierVerify url])
                  else (Inr data, [KashierVerify url])))"

text \<open>\<open>const payment = verification.data || verification\<close>; reading \<open>.data\<close> of
  \<open>null\<close> throws.\<close>

definition payment_of :: "jsval \<Rightarrow> js_error + jsval" where
  "payment_of verification =
     (if verification = JNull \<or> verification = JUndefined then Inl TypeError
      else Inr (js_or (get verification ''data'') verification))"

definition successStates :: "jsval list" where
  "successStates = [JStr ''PAID'', JStr ''CAPTURED'', JStr ''AUTHORIZED'']"

section \<open>POST /api/payment/session\<close>

text \<open>The own enumerable properties of a source of \<open>Object.assign\<close>.\<close>

fun own_props :: "jsval \<Rightarrow> (string \<times> jsval) list" where
  "own_props (JObj kvs) = kvs"
| "own_props (JArr xs) = map (\<lambda>(i, x). (show_int (int i), x)) (enumerate 0 xs)"
| "own_props (JStr s) = map (\<lambda>(i, c). (show_int (int i), JStr [c])) (enumerate 0 s)"
| "own_props v = []"

text \<open>\<open>Object.assign(target, src)\<close> sets each property on the target. Setting
  \<open>__proto__\<close> goes to the setter of the prototype and makes no own property.\<close>

definition object_assign :: "doc \<Rightarrow> jsval \<Rightarrow> doc" where
  "object_assign target src =
     fold (\<lambda>(k, v). AList.update k v)
       (filter (\<lambda>(k, v). k \<noteq> ''__proto__'') (own_props src)) target"

text \<open>The fields of the request, after \<open>req.body || {}\<close> and the defaults.\<close>

definition req_order :: "env \<Rightarrow> jsval \<Rightarrow> jsval" where
  "req_order e b = dflt (get b ''order'') (JStr (''order-'' @ show_int (sint (date_now e))))"

definition req_currency :: "jsval \<Rightarrow> jsval" where
  "req_currency b = dflt (get b ''currency'') (JStr ''EGP'')"

text \<open>The session payload sent to the provider. \<open>String(amount)\<close> and the template
  literal of the default description can throw.\<close>

definition session_payload :: "env \<Rightarrow> jsval \<Rightarrow> js_error + jsval" where
  "session_payload e b =
     (let amount = get b ''amount'';
          order = req_order e b;
          description = get b ''description'';
          metaData = get b ''metaData'';
          age = get b ''age''
      in case String_js amount of
           None \<Rightarrow> Inl TypeError
         | Some amt \<Rightarrow>
             (case (if truthy description then Some description
                    else map_option (\<lambda>s. JStr (''Payment for '' @ s)) (String_js order)) of
                None \<Rightarrow> Inl TypeError
              | Some descr \<Rightarrow>
                  Inr (JObj
                    [(''expireAt'', JStr (toISOString e (sint (date_now e) + 1000 * 60 * 60))),
                     (''maxFailureAttempts'', JNum 3),
                     (''paymentType'', JStr ''credit''),
                     (''amount'', JStr amt),
                     (''currency'', req_currency b),
                     (''order'', order),
                     (''merchantRedirect'', get b ''merchantRedirect''),
                     (''display'', JStr ''en''),
                     (''type'', JStr ''one-time''),
                     (''allowedMethods'', JStr ''card,wallet''),
                     (''merchantId'', env_val (KASHIER_MERCHANT_ID e)),
                     (''failureRedirect'', JBool False),
                     (''defaultMethod'', JStr ''card''),
                     (''description'', descr),
                     (''customer'',
                        JObj [(''email'', js_or (get b ''customerEmail'') (JStr [])),
                              (''reference'', js_or (get b ''customerReference'') (JStr []))]),
                     (''retrieveSavedCard'', JBool False),
                     (''saveCard'', JStr ''optional''),
                     (''serverWebhook'',
                        JStr ((case SERVER_BASE e of None \<Rightarrow> ''undefined'' | Some u \<Rightarrow> u)
                              @ ''/api/payment/webhook'')),
                     (''metaData'',
                        JObj (object_assign (object_assign [] (js_or metaData (JObj [])))
                               (if truthy age then JObj [(''age'', age)] else JObj [])))])))"

definition session_endpoint :: "env \<Rightarrow> string" where
  "session_endpoint e =
     (if KASHIER_MODE e = Some ''live'' then ''https://api.kashier.io/v3/payment/sessions''
      else ''https://test-api.kashier.io/v3/payment/sessions'')"

text \<open>\<open>data._id || data.sessionId || (data.data && data.data._id) || null\<close>.\<close>

definition session_id_of :: "jsval \<Rightarrow> jsval" where
  "session_id_of data =
     js_or (js_or (js_or (get data ''_id'') (get data ''sessionId''))
                  (js_and (get data ''data'') (get (get data ''data'') ''_id'')))
           JNull"

text \<open>The document written after a successful provider reply \<open>data\<close>.\<close>

definition session_record :: "env \<Rightarrow> jsval \<Rightarrow> jsval \<Rightarrow> jsval \<Rightarrow> doc" where
  "session_record e b payload data =
     [(''sessionId'', session_id_of data),
      (''merchantOrderId'', get payload ''order''),
      (''status'', js_or (get data ''status'') (JStr ''CREATED'')),
      (''createdAt'', JTimestamp (serverTimestamp e)),
      (''amount'', get payload ''amount''),
      (''currency'', get payload ''currency''),
      (''order'', get payload ''order''),
      (''age'', js_or (get b ''age'') JNull),
      (''user'', js_or (get b ''user'') JNull),
      (''response'', data)]"

text \<open>
  The handler. A provider reply \<open>null\<close> with an \<open>ok\<close> status makes \<open>data._id\<close>
  throw inside the inner \<open>try\<close> (nothing is written) and \<open>data.sessionUrl\<close> throw
  again, to the outer \<open>catch\<close>. A rejected \<open>add\<close> is caught by the inner \<open>try\<close>
  and logged, and the response is the same.
\<close>

definition payment_session :: "env \<Rightarrow> store \<Rightarrow> jsval \<Rightarrow> outcome" where
  "payment_session e st body =
     (let b = js_or body (JObj []);
          amount = get b ''amount'';
          merchantRedirect = get b ''merchantRedirect''
      in if \<not> truthy amount \<or> \<not> truthy merchantRedirect
         then ((400, error_json ''missing amount or merchantRedirect''), st, [])
         else
           (case Number_js amount of
              None \<Rightarrow> ((500, ErrorJson TypeError), st, [])
            | Some n \<Rightarrow>
                if num_le0 n then ((400, error_json ''invalid amount''), st, [])
                else
                  (case session_payload e b of
                     Inl err \<Rightarrow> ((500, ErrorJson err), st, [])
                   | Inr payload \<Rightarrow>
                       let endpoint = session_endpoint e;
                           call = KashierCreate endpoint payload
                       in (case kashier_post e endpoint payload of
                             FetchThrows \<Rightarrow> ((500, ErrorJson FetchError), st, [call])
                           | Reply code None \<Rightarrow> ((500, ErrorJson JsonParseError), st, [call])
                           | Reply code (Some data) \<Rightarrow>
                               if \<not> ok code
                               then ((502, Json (JObj [(''error'', data)])), st, [call])
                               else if data = JNull \<or> data = JUndefined
                               then ((500, ErrorJson TypeError), st, [call])
                               else
                                 let rec = session_record e b payload data;
                                     response =
                                       (200, Json (JObj [(''success'', JBool True),
                                                         (''sessionUrl'', get data ''sessionUrl''),
                                                         (''raw'', data)]))
                                 in (case firestore_add st rec of
                                       Inl err \<Rightarrow> (response, st, [call])
                                     | Inr st' \<Rightarrow> (response, st', [call, StoreAdd rec]))))))"

section \<open>POST /api/payment/webhook\<close>

text \<open>\<open>evt.sessionId || evt._id || (evt.data && evt.data.sessionId) || null\<close>.\<close>

definition webhook_direct :: "jsval \<Rightarrow> jsval" where
  "webhook_direct evt =
     js_or (js_or (js_or (get evt ''sessionId'') (get evt ''_id''))
                  (js_and (get evt ''data'') (get (get evt ''data'') ''sessionId'')))
           JNull"

definition webhook_merchantOrderId :: "jsval \<Rightarrow> jsval" where
  "webhook_merchantOrderId evt =
     js_or (js_or (js_or (js_or (get evt ''merchantOrderId'')
                                (js_and (get evt ''data'') (get (get evt ''data'') ''merchantOrderId'')))
                         (get evt ''order''))
                  (js_and (get evt ''data'') (get (get evt ''data'') ''order'')))
           JNull"

definition webhook_kashierOrderId :: "jsval \<Rightarrow> jsval" where
  "webhook_kashierOrderId evt =
     js_or (js_or (js_or (get evt ''kashierOrderId'')
                         (js_and (get evt ''data'') (get (get evt ''data'') ''kashierOrderId'')))
                  (get evt ''orderReference''))
           JNull"

text \<open>One lookup of the fallback: the query by \<open>p == v\<close>; a document found replaces
  the session identifier by its \<open>sessionId || null\<close>.\<close>

definition session_via :: "store \<Rightarrow> string list \<Rightarrow> jsval \<Rightarrow> jsval \<Rightarrow> jsval" where
  "session_via st p v sessionId =
     (case where_limit1 st p v of
        None \<Rightarrow> sessionId
      | Some (i, d) \<Rightarrow> js_or (get (JObj d) ''sessionId'') JNull)"

text \<open>
  The resolution of the session identifier (the first part of the handler): the
  identifier of the notification itself, else the lookup by \<open>merchantOrderId\<close>, else
  the lookup by \<open>response._id\<close>. The result is the identifier, \<open>null\<close> when none was
  found, with the queries made.
\<close>

definition webhook_resolve :: "store \<Rightarrow> jsval \<Rightarrow> jsval \<times> effect list" where
  "webhook_resolve st evt =
     (let sessionId = webhook_direct evt
      in if truthy sessionId then (sessionId, [])
         else
           let merchantOrderId = webhook_merchantOrderId evt;
               sessionId2 = (if truthy merchantOrderId
                             then session_via st [''merchantOrderId''] merchantOrderId sessionId
                             else sessionId);
               q2 = (if truthy merchantOrderId
                     then [StoreQuery [''merchantOrderId''] merchantOrderId] else [])
           in if truthy sessionId2 then (sessionId2, q2)
              else
                let kashierOrderId = webhook_kashierOrderId evt;
                    sessionId3 = (if truthy kashierOrderId
                                  then session_via st [''response'', ''_id''] kashierOrderId sessionId2
                                  else sessionId2);
                    q3 = (if truthy kashierOrderId
                          then [StoreQuery [''response'', ''_id''] kashierOrderId] else [])
                in (sessionId3, q2 @ q3))"

text \<open>The fields of the update and of the lazily created document.\<close>

definition verified_update :: "env \<Rightarrow> jsval \<Rightarrow> doc" where
  "verified_update e payment =
     [(''status'', get payment ''status''),
      (''verifiedAt'', JTimestamp (serverTimestamp e)),
      (''verification'', payment)]"

definition webhook_record :: "env \<Rightarrow> jsval \<Rightarrow> jsval \<Rightarrow> doc" where
  "webhook_record e sessionId payment =
     [(''sessionId'', sessionId),
      (''orderId'', js_or (js_or (get payment ''merchantOrderId'') (get payment ''order'')) JNull),
      (''status'', get payment ''status''),
      (''verification'', payment),
      (''createdAt'', JTimestamp (serverTimestamp e))]"

text \<open>The idempotent update of the second part: with the session identifier and the
  verified payment, update the document of the session if its status changed, create it
  if there is none. The result is the throw of a rejected write, or the new store; the
  effects are the query and the write that was made.\<close>

definition webhook_reconcile :: "env \<Rightarrow> store \<Rightarrow> jsval \<Rightarrow> jsval \<Rightarrow> js_error + store" where
  "webhook_reconcile e st sessionId payment =
     (case where_limit1 st [''sessionId''] sessionId of
        Some (i, d) \<Rightarrow>
          if strict_neq (get (JObj d) ''status'') (get payment ''status'')
          then firestore_update st i (verified_update e payment)
          else Inr st
      | None \<Rightarrow> firestore_add st (webhook_record e sessionId payment))"

definition reconcile_effects :: "env \<Rightarrow> store \<Rightarrow> jsval \<Rightarrow> jsval \<Rightarrow> effect list" where
  "reconcile_effects e st sessionId payment =
     StoreQuery [''sessionId''] sessionId
     # (case where_limit1 st [''sessionId''] sessionId of
          Some (i, d) \<Rightarrow>
            if strict_neq (get (JObj d) ''status'') (get payment ''status'')
               \<and> storable (verified_update e payment)
            then [StoreUpdate i (verified_update e payment)] else []
        | None \<Rightarrow>
            if storable (webhook_record e sessionId payment)
            then [StoreAdd (webhook_record e sessionId payment)] else [])"

definition payment_webhook :: "env \<Rightarrow> store \<Rightarrow> jsval \<Rightarrow> outcome" where
  "payment_webhook e st body =
     (let evt = js_or body (JObj []);
          sessionId = fst (webhook_resolve st evt);
          qs = snd (webhook_resolve st evt)
      in if \<not> truthy sessionId then ((400, Text ''missing sessionId''), st, qs)
         else
           (case fst (fetchKashierSession e sessionId) of
              Inl err \<Rightarrow>
                ((500, Text ''verification failed''), st, qs @ snd (fetchKashierSession e sessionId))
            | Inr verification \<Rightarrow>
                (case payment_of verification of
                   Inl err \<Rightarrow>
                     ((500, ErrorJson err), st, qs @ snd (fetchKashierSession e sessionId))
                 | Inr payment \<Rightarrow>
                     (case webhook_reconcile e st sessionId payment of
                        Inl err \<Rightarrow>
                          ((500, ErrorJson err), st,
                           qs @ snd (fetchKashierSession e sessionId)
                              @ reconcile_effects e st sessionId payment)
                      | Inr st' \<Rightarrow>
                          ((200, Text ''OK''), st',
                           qs @ snd (fetchKashierSession e sessionId)
                              @ reconcile_effects e st sessionId payment)))))"

section \<open>Finding the document of a request\<close>

text \<open>
  The status and the fulfillment handlers locate the document in the same way: by
  \<open>merchantOrderId == String(merchantOrderId)\<close> when a \<open>merchantOrderId\<close> is given, and,
  when that found nothing, by \<open>sessionId == String(sessionId)\<close> when a \<open>sessionId\<close> is
  given. A \<open>String(...)\<close> that throws goes to the handler's outer \<open>catch\<close>.
\<close>

definition find_payment ::
  "store \<Rightarrow> jsval \<Rightarrow> jsval \<Rightarrow> (js_error + (nat \<times> doc) option) \<times> effect list" where
  "find_payment st merchantOrderId sessionId =
     (let first =
            (if truthy merchantOrderId
             then (case String_js merchantOrderId of
                     None \<Rightarrow> (Inl TypeError, [])
                   | Some m \<Rightarrow> (Inr (where_limit1 st [''merchantOrderId''] (JStr m)),
                                [StoreQuery [''merchantOrderId''] (JStr m)]))
             else (Inr None, []))
      in case fst first of
           Inl err \<Rightarrow> first
         | Inr (Some x) \<Rightarrow> first
         | Inr None \<Rightarrow>
             if truthy sessionId
             then (case String_js sessionId of
                     None \<Rightarrow> (Inl TypeError, snd first)
                   | Some s \<Rightarrow> (Inr (where_limit1 st [''sessionId''] (JStr s)),
                                snd first @ [StoreQuery [''sessionId''] (JStr s)]))
             else (Inr None, snd first))"

section \<open>GET /api/payment/status\<close>

text \<open>\<open>successStates.includes((data.status || "").toUpperCase())\<close>; a status that is
  truthy and not a string has no \<open>toUpperCase\<close>.\<close>

definition stored_success :: "jsval \<Rightarrow> js_error + bool" where
  "stored_success data =
     (case js_or (get data ''status'') (JStr []) of
        JStr s \<Rightarrow> Inr (JStr (toUpperCase s) \<in> set successStates)
      | _ \<Rightarrow> Inl TypeError)"

definition status_json :: "jsval \<Rightarrow> bool \<Rightarrow> jsval \<Rightarrow> body" where
  "status_json status verified payment =
     Json (JObj [(''status'', status), (''verified'', JBool verified), (''payment'', payment)])"

definition status_update :: "env \<Rightarrow> jsval \<Rightarrow> doc" where
  "status_update e payment =
     [(''status'', get payment ''status''),
      (''verification'', payment),
      (''verifiedAt'', JTimestamp (serverTimestamp e))]"

text \<open>A document was found and its status is not final: verify when a session
  identifier is known, and update the document. The verification and the update are in
  one \<open>try\<close>: a throw of either is answered 500 \<open>verification failed\<close>.\<close>

definition status_reverify ::
  "env \<Rightarrow> store \<Rightarrow> nat \<Rightarrow> doc \<Rightarrow> jsval \<Rightarrow> effect list \<Rightarrow> outcome" where
  "status_reverify e st i d sessionId qs =
     (let data = JObj d;
          sid = js_or (get data ''sessionId'') sessionId
      in if truthy sid
         then
           (case fst (fetchKashierSession e sid) of
              Inl err \<Rightarrow>
                ((500, error_json ''verification failed''), st, qs @ snd (fetchKashierSession e sid))
            | Inr verification \<Rightarrow>
                (case payment_of verification of
                   Inl err \<Rightarrow>
                     ((500, error_json ''verification failed''), st,
                      qs @ snd (fetchKashierSession e sid))
                 | Inr payment \<Rightarrow>
                     (case firestore_update st i (status_update e payment) of
                        Inl err \<Rightarrow>
                          ((500, error_json ''verification failed''), st,
                           qs @ snd (fetchKashierSession e sid))
                      | Inr st' \<Rightarrow>
                          ((200, status_json (get payment ''status'')
                                             (get payment ''status'' \<in> set successStates)
                                             payment),
                           st',
                           qs @ snd (fetchKashierSession e sid)
                              @ [StoreUpdate i (status_update e payment)]))))
         else ((200, status_json (js_or (get data ''status'') JNull) False data), st, qs))"

definition status_record :: "env \<Rightarrow> jsval \<Rightarrow> jsval \<Rightarrow> doc" where
  "status_record e sessionId payment =
     [(''sessionId'', sessionId),
      (''merchantOrderId'',
         js_or (js_or (get payment ''merchantOrderId'') (get payment ''order'')) JNull),
      (''status'', get payment ''status''),
      (''verification'', payment),
      (''createdAt'', JTimestamp (serverTimestamp e))]"

text \<open>No document was found and a \<open>sessionId\<close> was given: verify and create, in
  one \<open>try\<close>.\<close>

definition status_verify_create :: "env \<Rightarrow> store \<Rightarrow> jsval \<Rightarrow> effect list \<Rightarrow> outcome" where
  "status_verify_create e st sessionId qs =
     (case String_js sessionId of
        None \<Rightarrow> ((500, error_json ''verification failed''), st, qs)
      | Some s \<Rightarrow>
          (case fst (fetchKashierSession e (JStr s)) of
             Inl err \<Rightarrow>
               ((500, error_json ''verification failed''), st,
                qs @ snd (fetchKashierSession e (JStr s)))
           | Inr verification \<Rightarrow>
               (case payment_of verification of
                  Inl err \<Rightarrow>
                    ((500, error_json ''verification failed''), st,
                     qs @ snd (fetchKashierSession e (JStr s)))
                | Inr payment \<Rightarrow>
                    (case firestore_add st (status_record e sessionId payment) of
                       Inl err \<Rightarrow>
                         ((500, error_json ''verification failed''), st,
                          qs @ snd (fetchKashierSession e (JStr s)))
                     | Inr st' \<Rightarrow>
                         ((200, status_json (get payment ''status'')
                                            (get payment ''status'' \<in> set successStates)
                                            payment),
                          st',
                          qs @ snd (fetchKashierSession e (JStr s))
                             @ [StoreAdd (status_record e sessionId payment)])))))"

definition payment_status :: "env \<Rightarrow> store \<Rightarrow> jsval \<Rightarrow> outcome" where
  "payment_status e st query =
     (let q = js_or query (JObj []);
          merchantOrderId = get q ''merchantOrderId'';
          sessionId = get q ''sessionId''
      in if \<not> truthy merchantOrderId \<and> \<not> truthy sessionId
         then ((400, error_json ''missing merchantOrderId or sessionId''), st, [])
         else
           (case fst (find_payment st merchantOrderId sessionId) of
              Inl err \<Rightarrow>
                ((500, ErrorJson err), st, snd (find_payment st merchantOrderId sessionId))
            | Inr (Some (i, d)) \<Rightarrow>
                (case stored_success (JObj d) of
                   Inl err \<Rightarrow>
                     ((500, ErrorJson err), st, snd (find_payment st merchantOrderId sessionId))
                 | Inr True \<Rightarrow>
                     ((200, status_json (get (JObj d) ''status'') True (JObj d)), st,
                      snd (find_payment st merchantOrderId sessionId))
                 | Inr False \<Rightarrow>
                     status_reverify e st i d sessionId
                       (snd (find_payment st merchantOrderId sessionId)))
            | Inr None \<Rightarrow>
                if truthy sessionId
                then status_verify_create e st sessionId
                       (snd (find_payment st merchantOrderId sessionId))
                else ((404, error_json ''not found''), st,
                      snd (find_payment st merchantOrderId sessionId))))"

section \<open>POST /api/payment/fulfill\<close>

text \<open>\<open>(user && user.email) || data.response?.customer?.email || null\<close>, with
  \<open>user = data.user || {}\<close>.\<close>

definition receipt_email :: "jsval \<Rightarrow> jsval" where
  "receipt_email data =
     (let user = js_or (get data ''user'') (JObj [])
      in js_or (js_or (js_and user (get user ''email''))
                      (get (get (get data ''response'') ''customer'') ''email''))
               JNull)"

definition appsPayload :: "env \<Rightarrow> jsval \<Rightarrow> jsval" where
  "appsPayload e data =
     (let user = js_or (get data ''user'') (JObj [])
      in JObj
           ([(''name'', js_or (get user ''name'') (JStr [])),
             (''email'', receipt_email data),
             (''phone'', js_or (get user ''phone'') (JStr [])),
             (''age'', js_or (js_or (get user ''age'') (get data ''age'')) JNull),
             (''program_id'', js_or (get data ''order'') (JStr [])),
             (''program_title'', js_or (get (get data ''metaData'') ''packageId'') (JStr [])),
             (''program_name'', js_or (get (get data ''metaData'') ''packageId'') (JStr [])),
             (''group_link'', js_or (get (get data ''metaData'') ''group_link'') (JStr []))]
            @ (if truthy (env_val (APPSCRIPT_TOKEN e))
               then [(''token'', env_val (APPSCRIPT_TOKEN e))] else [])))"

text \<open>The post to Apps Script. Without \<open>APPSCRIPT_URL\<close> the \<open>fetch\<close> throws before
  any request leaves.\<close>

definition send_receipt :: "env \<Rightarrow> jsval \<Rightarrow> text_reply \<times> effect list" where
  "send_receipt e payload =
     (case APPSCRIPT_URL e of
        None \<Rightarrow> (PostThrows, [])
      | Some url \<Rightarrow> (appscript_post e url payload, [AppsScriptPost url payload]))"

definition receipt_update :: "env \<Rightarrow> jsval \<Rightarrow> bool \<Rightarrow> string \<Rightarrow> doc" where
  "receipt_update e payment sent text =
     [(''status'', get payment ''status''),
      (''verification'', payment),
      (''verifiedAt'', JTimestamp (serverTimestamp e)),
      (''receiptSent'', JBool sent),
      (''receiptResponse'', JStr text)]"

text \<open>The \<open>catch\<close> of the dispatch: record the verified status and answer 500. Its
  own update is outside any inner \<open>try\<close>, so a rejected one goes to the outer
  \<open>catch\<close>.\<close>

definition dispatch_failed ::
  "env \<Rightarrow> store \<Rightarrow> nat \<Rightarrow> jsval \<Rightarrow> effect list \<Rightarrow> outcome" where
  "dispatch_failed e st i payment es =
     (case firestore_update st i (status_update e payment) of
        Inl err \<Rightarrow> ((500, ErrorJson err), st, es)
      | Inr st' \<Rightarrow>
          ((500, error_json ''apps script send failed''), st',
           es @ [StoreUpdate i (status_update e payment)]))"

text \<open>The payment is verified as successful: send the receipt when there is an email.
  The post, the reading of the reply and the update that records it are in one
  \<open>try\<close>.\<close>

definition fulfill_dispatch ::
  "env \<Rightarrow> store \<Rightarrow> nat \<Rightarrow> doc \<Rightarrow> jsval \<Rightarrow> effect list \<Rightarrow> outcome" where
  "fulfill_dispatch e st i d payment es =
     (let data = JObj d;
          status = get payment ''status''
      in if \<not> truthy (receipt_email data)
         then
           (case firestore_update st i (status_update e payment) of
              Inl err \<Rightarrow> ((500, ErrorJson err), st, es)
            | Inr st' \<Rightarrow>
                ((200, Json (JObj [(''ok'', JBool True), (''message'', JStr ''no email to send''),
                                   (''status'', status)])),
                 st', es @ [StoreUpdate i (status_update e payment)]))
         else
           (case fst (send_receipt e (appsPayload e data)) of
              PostThrows \<Rightarrow>
                dispatch_failed e st i payment (es @ snd (send_receipt e (appsPayload e data)))
            | TextReply code text \<Rightarrow>
                (case firestore_update st i (receipt_update e payment (ok code) text) of
                   Inl err \<Rightarrow>
                     dispatch_failed e st i payment
                       (es @ snd (send_receipt e (appsPayload e data)))
                 | Inr st' \<Rightarrow>
                     ((200, Json (JObj [(''ok'', JBool True), (''status'', status),
                                        (''receiptSent'', JBool (ok code)),
                                        (''receiptResponse'', JStr text)])),
                      st',
                      es @ snd (send_receipt e (appsPayload e data))
                         @ [StoreUpdate i (receipt_update e payment (ok code) text)]))))"

text \<open>A document was found and no receipt was sent yet: verify, then dispatch.\<close>

definition fulfill_verify ::
  "env \<Rightarrow> store \<Rightarrow> nat \<Rightarrow> doc \<Rightarrow> jsval \<Rightarrow> effect list \<Rightarrow> outcome" where
  "fulfill_verify e st i d sessionId qs =
     (let sid = js_or (get (JObj d) ''sessionId'') sessionId
      in case fst (fetchKashierSession e sid) of
           Inl err \<Rightarrow>
             ((500, error_json ''verification failed''), st, qs @ snd (fetchKashierSession e sid))
         | Inr verification \<Rightarrow>
             (case payment_of verification of
                Inl err \<Rightarrow> ((500, ErrorJson err), st, qs @ snd (fetchKashierSession e sid))
              | Inr payment \<Rightarrow>
                  if get payment ''status'' \<notin> set successStates
                  then
                    (case firestore_update st i (status_update e payment) of
                       Inl err \<Rightarrow>
                         ((500, ErrorJson err), st, qs @ snd (fetchKashierSession e sid))
                     | Inr st' \<Rightarrow>
                         ((400, Json (JObj [(''error'', JStr ''payment not successful''),
                                            (''status'', get payment ''status'')])),
                          st',
                          qs @ snd (fetchKashierSession e sid)
                             @ [StoreUpdate i (status_update e payment)]))
                  else fulfill_dispatch e st i d payment
                         (qs @ snd (fetchKashierSession e sid))))"

definition payment_fulfill :: "env \<Rightarrow> store \<Rightarrow> jsval \<Rightarrow> outcome" where
  "payment_fulfill e st body =
     (let b = js_or body (JObj []);
          merchantOrderId = get b ''merchantOrderId'';
          sessionId = get b ''sessionId''
      in if \<not> truthy merchantOrderId \<and> \<not> truthy sessionId
         then ((400, error_json ''missing merchantOrderId or sessionId''), st, [])
         else
           (case fst (find_payment st merchantOrderId sessionId) of
              Inl err \<Rightarrow>
                ((500, ErrorJson err), st, snd (find_payment st merchantOrderId sessionId))
            | Inr None \<Rightarrow>
                ((404, error_json ''payment record not found''), st,
                 snd (find_payment st merchantOrderId sessionId))
            | Inr (Some (i, d)) \<Rightarrow>
                if truthy (get (JObj d) ''receiptSent'')
                then ((200, Json (JObj [(''ok'', JBool True),
                                        (''message'', JStr ''receipt already sent''),
                                        (''status'', get (JObj d) ''status'')])),
                      st, snd (find_payment st merchantOrderId sessionId))
                else fulfill_verify e st i d sessionId
                       (snd (find_payment st merchantOrderId sessionId))))"

section \<open>Example environments and documents\<close>

text \<open>
  A test-mode environment for concrete runs: the provider creates session \<open>abc\<close>,
  reports every session as \<open>PAID\<close>, and the Apps Script endpoint accepts the receipt.
\<close>

definition example_env :: env where
  "example_env =
     \<lparr>KASHIER_MODE = None,
      KASHIER_MERCHANT_ID = Some ''MID-1'',
      SERVER_BASE = Some ''https://srv.example'',
      APPSCRIPT_URL = Some ''https://script.example/exec'',
      APPSCRIPT_TOKEN = None,
      date_now = 0,
      toISOString = (\<lambda>t. ''1970-01-01T01:00:00.000Z''),
      serverTimestamp = 7,
      kashier_post = (\<lambda>url payload.
         Reply 200 (Some (JObj [(''_id'', JStr ''abc''),
                                (''sessionUrl'', JStr ''https://pay.example/abc'')]))),
      kashier_get = (\<lambda>url. Reply 200 (Some (JObj [(''data'', JObj [(''status'', JStr ''PAID'')])]))),
      appscript_post = (\<lambda>url payload. TextReply 200 ''sent'')\<rparr>"

text \<open>A settled payment whose receipt was sent.\<close>

definition settled_record :: doc where
  "settled_record =
     [(''sessionId'', JStr ''abc''), (''merchantOrderId'', JStr ''o1''),
      (''status'', JStr ''PAID''), (''receiptSent'', JBool True)]"

text \<open>A payment as the session handler stored it, not yet verified.\<close>

definition created_record :: doc where
  "created_record =
     [(''sessionId'', JStr ''abc''), (''merchantOrderId'', JStr ''o1''), (''status'', JStr ''CREATED''),
      (''user'', JObj [(''name'', JStr ''Ada''), (''email'', JStr ''ada@example.org'')]),
      (''response'', JObj [(''_id'', JStr ''k1''), (''sessionUrl'', JStr ''https://pay.example/abc'')])]"

text \<open>The same environment with a provider that reports every session as \<open>FAILED\<close>.\<close>

definition declined_env :: env where
  "declined_env =
     example_env\<lparr>kashier_get :=
       (\<lambda>url. Reply 200 (Some (JObj [(''data'', JObj [(''status'', JStr ''FAILED'')])])))\<rparr>"






definition nan_request :: jsval where
  "nan_request =
     JObj [(''amount'', JStr ''abc''), (''merchantRedirect'', JStr ''https://x/r'')]"

section \<open>Facts about objects and the store\<close>

lemma get_update_other: "k \<noteq> k' \<Longrightarrow> get (JObj (AList.update k' v kvs)) k = get (JObj kvs) k"
  by (simp add: update_conv')

lemma get_update_same: "get (JObj (AList.update k v kvs)) k = v"
  by (simp add: update_conv')

lemma map_of_update_fields:
  "map_of (update_fields d upd) k = (case map_of (rev upd) k of None \<Rightarrow> map_of d k | Some v \<Rightarrow> Some v)"
  unfolding update_fields_def
proof (induction upd arbitrary: d)
  case Nil
  then show ?case by simp
next
  case (Cons a upd)
  obtain k' v' where a: "a = (k', v')" by (cases a)
  show ?case
    by (simp add: a Cons.IH update_conv' map_add_def split: option.splits)
qed

lemma find_from_Some:
  "find_from n ds p v = Some (j, d) \<Longrightarrow>
     n \<le> j \<and> j < n + length ds \<and> d = ds ! (j - n) \<and> field_at p (JObj d) = Some v"
proof (induction ds arbitrary: n)
  case Nil
  then show ?case by simp
next
  case (Cons a ds)
  show ?case
  proof (cases "field_at p (JObj a) = Some v")
    case True
    with Cons.prems show ?thesis by simp
  next
    case False
    with Cons.prems have "find_from (Suc n) ds p v = Some (j, d)" by simp
    from Cons.IH[OF this] show ?thesis by (auto simp: nth_Cons')
  qed
qed

lemma where_limit1_Some:
  "where_limit1 st p v = Some (i, d) \<Longrightarrow> i < length st \<and> st ! i = d \<and> field_at p (JObj d) = Some v"
  using find_from_Some[of 0 st p v i d] by (auto simp: where_limit1_def)





lemma find_payment_queries: "list_all is_query (snd (find_payment st m s))"
  by (simp add: find_payment_def Let_def split: option.splits sum.splits)

section \<open>Status of a settled payment\<close>

lemma upper_success_states:
  "toUpperCase ''PAID'' = ''PAID''" "toUpperCase ''CAPTURED'' = ''CAPTURED''"
  "toUpperCase ''AUTHORIZED'' = ''AUTHORIZED''"
  by code_simp+

text \<open>
  Claim C9. A status query that locates a document whose stored status is one of
  \<open>PAID\<close>, \<open>CAPTURED\<close>, \<open>AUTHORIZED\<close> answers 200 with the body
  \<open>{status, verified: true, payment}\<close>, where \<open>status\<close> is that stored status and
  \<open>payment\<close> the stored document; the store is unchanged and the only effects are the
  queries that located the document: no verification call, no write.
\<close>

theorem status_settled_short_circuit:
  assumes found: "fst (find_payment st (get (js_or query (JObj [])) ''merchantOrderId'')
                        (get (js_or query (JObj [])) ''sessionId'')) = Inr (Some (i, d))"
      and settled: "get (JObj d) ''status'' \<in> set successStates"
  shows "payment_status e st query =
           ((200, Json (JObj [(''status'', get (JObj d) ''status''), (''verified'', JBool True),
                              (''payment'', JObj d)])), st,
            snd (find_payment st (get (js_or query (JObj [])) ''merchantOrderId'')
                   (get (js_or query (JObj [])) ''sessionId'')))
         \<and> list_all is_query (snd (snd (payment_status e st query)))"
proof -
  let ?m = "get (js_or query (JObj [])) ''merchantOrderId''"
  let ?s = "get (js_or query (JObj [])) ''sessionId''"
  have supplied: "truthy ?m \<or> truthy ?s"
    using found by (auto simp: find_payment_def Let_def split: if_splits)
  have final: "stored_success (JObj d) = Inr True"
    using settled
    by (auto simp: stored_success_def successStates_def js_or_def upper_success_states)
  have run: "payment_status e st query =
           ((200, Json (JObj [(''status'', get (JObj d) ''status''), (''verified'', JBool True),
                              (''payment'', JObj d)])), st,
            snd (find_payment st ?m ?s))"
    using supplied found final by (auto simp: payment_status_def Let_def status_json_def)
  show ?thesis using run find_payment_queries by simp
qed

theorem status_settled_short_circuit_witness:
  "fst (find_payment [settled_record] (JStr ''o1'') JUndefined) = Inr (Some (0, settled_record))
   \<and> get (JObj settled_record) ''status'' \<in> set successStates
   \<and> payment_status example_env [settled_record] (JObj [(''merchantOrderId'', JStr ''o1'')]) =
       ((200, Json (JObj [(''status'', JStr ''PAID''), (''verified'', JBool True),
                          (''payment'', JObj settled_record)])), [settled_record],
        [StoreQuery [''merchantOrderId''] (JStr ''o1'')])"
proof -
  let ?q = "JObj [(''merchantOrderId'', JStr ''o1'')]"
  have found: "fst (find_payment [settled_record] (get (js_or ?q (JObj [])) ''merchantOrderId'')
                      (get (js_or ?q (JObj [])) ''sessionId'')) = Inr (Some (0, settled_record))"
    by (simp add: js_or_def find_payment_def where_limit1_def settled_record_def)
  have settled: "get (JObj settled_record) ''status'' \<in> set successStates"
    by (simp add: settled_record_def successStates_def)
  show ?thesis
    using status_settled_short_circuit[OF found settled, of example_env] found settled
    by (simp add: js_or_def find_payment_def where_limit1_def settled_record_def)
qed

lemma query_not_others:
  "is_query x \<Longrightarrow> \<not> is_write x \<and> \<not> is_verify x \<and> \<not> is_create x \<and> \<not> is_dispatch x"
  by (cases x) simp_all

lemma queries_only:
  "list_all is_query es \<Longrightarrow>
     filter is_write es = [] \<and> filter is_verify es = [] \<and> filter is_create es = []
     \<and> filter is_dispatch es = []"
  by (auto simp: list_all_iff filter_empty_conv dest: query_not_others)

section \<open>Fulfillment of a record whose receipt was sent\<close>

text \<open>
  Claim C5. A fulfillment request that locates a document whose \<open>receiptSent\<close> is true
  (truthy) answers 200 \<open>receipt already sent\<close>; the store is unchanged and the only
  effects are the queries that located the document: no post to Apps Script, no
  verification call, no write. A second call on the resulting store does the same, so
  the two calls together dispatch at most once (in fact never).
\<close>

theorem fulfill_receipt_sent_idempotent:
  assumes found: "fst (find_payment st (get (js_or body (JObj [])) ''merchantOrderId'')
                        (get (js_or body (JObj [])) ''sessionId'')) = Inr (Some (i, d))"
      and sent: "truthy (get (JObj d) ''receiptSent'')"
  shows "payment_fulfill e st body =
           ((200, Json (JObj [(''ok'', JBool True), (''message'', JStr ''receipt already sent''),
                              (''status'', get (JObj d) ''status'')])),
            st,
            snd (find_payment st (get (js_or body (JObj [])) ''merchantOrderId'')
                   (get (js_or body (JObj [])) ''sessionId'')))
         \<and> filter is_dispatch (snd (snd (payment_fulfill e st body))) = []
         \<and> filter is_verify (snd (snd (payment_fulfill e st body))) = []
         \<and> filter is_write (snd (snd (payment_fulfill e st body))) = []
         \<and> payment_fulfill e (fst (snd (payment_fulfill e st body))) body
             = payment_fulfill e st body
         \<and> length (filter is_dispatch
               (snd (snd (payment_fulfill e st body))
                @ snd (snd (payment_fulfill e (fst (snd (payment_fulfill e st body))) body))))
             \<le> 1"
proof -
  let ?m = "get (js_or body (JObj [])) ''merchantOrderId''"
  let ?s = "get (js_or body (JObj [])) ''sessionId''"
  have supplied: "truthy ?m \<or> truthy ?s"
    using found by (auto simp: find_payment_def Let_def split: if_splits)
  have run: "payment_fulfill e st body =
           ((200, Json (JObj [(''ok'', JBool True), (''message'', JStr ''receipt already sent''),
                              (''status'', get (JObj d) ''status'')])),
            st, snd (find_payment st ?m ?s))"
    using supplied found sent by (auto simp: payment_fulfill_def Let_def)
  have reads: "list_all is_query (snd (find_payment st ?m ?s))"
    by (rule find_payment_queries)
  show ?thesis using run queries_only[OF reads] by simp
qed

theorem fulfill_receipt_sent_idempotent_witness:
  "fst (find_payment [settled_record] (JStr ''o1'') JUndefined) = Inr (Some (0, settled_record))
   \<and> truthy (get (JObj settled_record) ''receiptSent'')
   \<and> payment_fulfill example_env [settled_record] (JObj [(''merchantOrderId'', JStr ''o1'')]) =
       ((200, Json (JObj [(''ok'', JBool True), (''message'', JStr ''receipt already sent''),
                          (''status'', JStr ''PAID'')])),
        [settled_record], [StoreQuery [''merchantOrderId''] (JStr ''o1'')])"
proof -
  let ?q = "JObj [(''merchantOrderId'', JStr ''o1'')]"
  have found: "fst (find_payment [settled_record] (get (js_or ?q (JObj [])) ''merchantOrderId'')
                      (get (js_or ?q (JObj [])) ''sessionId'')) = Inr (Some (0, settled_record))"
    by (simp add: js_or_def find_payment_def where_limit1_def settled_record_def)
  have sent: "truthy (get (JObj settled_record) ''receiptSent'')"
    by (simp add: settled_record_def)
  show ?thesis
    using fulfill_receipt_sent_idempotent[OF found sent, of example_env] found sent
    by (simp add: js_or_def find_payment_def where_limit1_def settled_record_def)
qed

section \<open>Conversions at the edges\<close>

text \<open>
  Concrete values of the conversions where JavaScript differs from exact arithmetic on
  ASCII text: a literal below the smallest double is 0, so the amount \<open>"1e-400"\<close> is
  rejected as not positive; an integer literal beyond \<open>2^53\<close> is rounded to the nearest
  double; the dotless i has the upper case \<open>I\<close>, so a stored status written with it
  counts as settled; \<open>Object.assign\<close> does not copy \<open>__proto__\<close>.
\<close>

lemma Number_js_underflow: "Number_js (JStr ''1e-400'') = Some (Fin 0)"
  by code_simp

lemma Number_js_rounds: "Number_js (JStr ''9007199254740993'') = Some (Fin 9007199254740992)"
  by code_simp

lemma session_underflow_amount_rejected:
  "payment_session example_env []
     (JObj [(''amount'', JStr ''1e-400''), (''merchantRedirect'', JStr ''https://x/r'')])
     = ((400, Json (JObj [(''error'', JStr ''invalid amount'')])), [], [])"
  by code_simp

lemma toUpperCase_dotless_i:
  "toUpperCase [CHR ''p'', CHR ''a'', CHR 0xC4, CHR 0xB1, CHR ''d''] = ''PAID''"
  by code_simp

lemma status_settled_dotless_i:
  "fst (payment_status example_env
          [ [(''sessionId'', JStr ''abc''),
             (''status'', JStr [CHR ''p'', CHR ''a'', CHR 0xC4, CHR 0xB1, CHR ''d''])]]
          (JObj [(''sessionId'', JStr ''abc'')]))
     = (200, Json (JObj [(''status'', JStr [CHR ''p'', CHR ''a'', CHR 0xC4, CHR 0xB1, CHR ''d'']),
                         (''verified'', JBool True),
                         (''payment'', JObj [(''sessionId'', JStr ''abc''),
                            (''status'', JStr [CHR ''p'', CHR ''a'', CHR 0xC4, CHR 0xB1, CHR ''d''])])]))"
  by code_simp

lemma object_assign_proto:
  "object_assign [] (JObj [(''__proto__'', JObj [(''a'', JNum 1)]), (''b'', JNum 2)])
     = [(''b'', JNum 2)]"
  by code_simp

section \<open>Resolution of the session identifier of a notification\<close>

lemma webhook_resolve_queries: "list_all is_query (snd (webhook_resolve st evt))"
  by (simp add: webhook_resolve_def Let_def)

text \<open>
  Claim C3. The webhook handler resolves the session identifier in a fixed order and
  stops at the first match. With \<open>evt\<close> the body (or \<open>{}\<close>): (1) the identifier
  of the body itself is the first truthy one of \<open>sessionId\<close>, \<open>_id\<close>,
  \<open>data.sessionId\<close>; when there is one, it is the result and no query is made.
  (2) Otherwise the order identifier is the first truthy one of \<open>merchantOrderId\<close>,
  \<open>data.merchantOrderId\<close>, \<open>order\<close>, \<open>data.order\<close>; the first document whose
  \<open>merchantOrderId\<close> equals it gives its \<open>sessionId\<close>, and only that query is made.
  (3) When that gave nothing truthy, the reference is the first truthy one of
  \<open>kashierOrderId\<close>, \<open>data.kashierOrderId\<close>, \<open>orderReference\<close>; the first
  document whose \<open>response._id\<close> equals it gives its \<open>sessionId\<close>. (4) When nothing
  truthy is resolved the answer is 400 \<open>missing sessionId\<close>, the store is unchanged
  and the only effects are the lookup queries: no verification call and no write. When an
  identifier is resolved, the response and the resulting store are those of the
  notification that carries that identifier directly, the effects are the same after the
  lookup queries, and the answer is not 400.
\<close>

theorem webhook_resolution_order:
  fixes st :: store and body :: jsval and e :: env
  defines "evt \<equiv> (if truthy body then body else JObj [])"
  defines "dat \<equiv> get evt ''data''"
  defines "direct \<equiv>
     (if truthy (get evt ''sessionId'') then get evt ''sessionId''
      else if truthy (get evt ''_id'') then get evt ''_id''
      else if truthy dat \<and> truthy (get dat ''sessionId'') then get dat ''sessionId''
      else JNull)"
  defines "moid \<equiv>
     (if truthy (get evt ''merchantOrderId'') then get evt ''merchantOrderId''
      else if truthy dat \<and> truthy (get dat ''merchantOrderId'') then get dat ''merchantOrderId''
      else if truthy (get evt ''order'') then get evt ''order''
      else if truthy dat \<and> truthy (get dat ''order'') then get dat ''order''
      else JNull)"
  defines "koid \<equiv>
     (if truthy (get evt ''kashierOrderId'') then get evt ''kashierOrderId''
      else if truthy dat \<and> truthy (get dat ''kashierOrderId'') then get dat ''kashierOrderId''
      else if truthy (get evt ''orderReference'') then get evt ''orderReference''
      else JNull)"
  defines "by_order \<equiv>
     (if truthy moid
      then (case where_limit1 st [''merchantOrderId''] moid of
              None \<Rightarrow> JNull
            | Some (i, d) \<Rightarrow>
                if truthy (get (JObj d) ''sessionId'') then get (JObj d) ''sessionId'' else JNull)
      else JNull)"
  defines "by_ref \<equiv>
     (if truthy koid
      then (case where_limit1 st [''response'', ''_id''] koid of
              None \<Rightarrow> JNull
            | Some (i, d) \<Rightarrow>
                if truthy (get (JObj d) ''sessionId'') then get (JObj d) ''sessionId'' else JNull)
      else JNull)"
  defines "q_order \<equiv> (if truthy moid then [StoreQuery [''merchantOrderId''] moid] else [])"
  defines "q_ref \<equiv> (if truthy koid then [StoreQuery [''response'', ''_id''] koid] else [])"
  defines "sid \<equiv> (if truthy direct then direct else if truthy by_order then by_order else by_ref)"
  defines "qs \<equiv> (if truthy direct then [] else if truthy by_order then q_order else q_order @ q_ref)"
  defines "run \<equiv> payment_webhook e st (JObj [(''sessionId'', sid)])"
  shows
   "webhook_resolve st evt = (sid, qs)
  \<and> list_all is_query qs
  \<and> (\<not> truthy sid \<longrightarrow> payment_webhook e st body = ((400, Text ''missing sessionId''), st, qs))
  \<and> (truthy sid \<longrightarrow>
        payment_webhook e st body = (fst run, fst (snd run), qs @ snd (snd run))
        \<and> fst (fst run) \<noteq> 400)"
proof -
  have ev: "js_or body (JObj []) = evt"
    by (simp add: evt_def js_or_def)
  have d: "webhook_direct evt = direct"
    by (simp add: direct_def dat_def webhook_direct_def js_or_def js_and_def)
  have m: "webhook_merchantOrderId evt = moid"
    by (simp add: moid_def dat_def webhook_merchantOrderId_def js_or_def js_and_def)
  have k: "webhook_kashierOrderId evt = koid"
    by (simp add: koid_def dat_def webhook_kashierOrderId_def js_or_def js_and_def)
  have dn: "\<not> truthy direct \<Longrightarrow> direct = JNull"
    by (auto simp add: direct_def split: if_splits)
  have v1: "truthy moid \<Longrightarrow> session_via st [''merchantOrderId''] moid JNull = by_order"
    by (simp add: by_order_def session_via_def js_or_def split: option.splits)
  have bn: "\<not> truthy by_order \<Longrightarrow> by_order = JNull"
    by (auto simp add: by_order_def split: if_splits option.splits)
  have v2: "truthy koid \<Longrightarrow> session_via st [''response'', ''_id''] koid JNull = by_ref"
    by (simp add: by_ref_def session_via_def js_or_def split: option.splits)
  have rn: "\<not> truthy koid \<Longrightarrow> by_ref = JNull"
    by (simp add: by_ref_def)
  have mn: "\<not> truthy moid \<Longrightarrow> by_order = JNull"
    by (simp add: by_order_def)
  have r: "webhook_resolve st evt = (sid, qs)"
  proof (cases "truthy direct")
    case True
    then show ?thesis by (simp add: webhook_resolve_def d sid_def qs_def)
  next
    case False
    note nd = this
    show ?thesis
    proof (cases "truthy moid")
      case True
      show ?thesis
      proof (cases "truthy by_order")
        case True
        with nd \<open>truthy moid\<close> show ?thesis
          by (simp add: webhook_resolve_def d m k dn v1 Let_def sid_def qs_def q_order_def)
      next
        case False
        with nd \<open>truthy moid\<close> show ?thesis
          by (cases "truthy koid")
             (simp_all add: webhook_resolve_def d m k dn v1 v2 bn rn Let_def sid_def qs_def
                q_order_def q_ref_def)
      qed
    next
      case False
      with nd show ?thesis
        by (cases "truthy koid")
           (simp_all add: webhook_resolve_def d m k dn v2 mn rn Let_def sid_def qs_def
              q_order_def q_ref_def)
    qed
  qed
  have p4: "payment_webhook e st body = ((400, Text ''missing sessionId''), st, qs)"
    if "\<not> truthy sid"
    using that by (simp add: payment_webhook_def Let_def ev r)
  have r2: "webhook_resolve st (js_or (JObj [(''sessionId'', sid)]) (JObj [])) = (sid, [])"
    if "truthy sid"
    using that by (simp add: webhook_resolve_def webhook_direct_def js_or_def)
  have p5: "payment_webhook e st body = (fst run, fst (snd run), qs @ snd (snd run))
            \<and> fst (fst run) \<noteq> 400"
    if h: "truthy sid"
    unfolding run_def payment_webhook_def Let_def ev r r2[OF h]
    using h by (simp split: sum.splits)
  have q: "list_all is_query qs"
    by (simp add: qs_def q_order_def q_ref_def)
  show ?thesis using r q p4 p5 by blast
qed

theorem webhook_resolution_order_witness:
  "webhook_resolve [created_record] (JObj [(''sessionId'', JStr ''abc'')]) = (JStr ''abc'', [])
   \<and> webhook_resolve [created_record] (JObj [(''data'', JObj [(''order'', JStr ''o1'')])])
       = (JStr ''abc'', [StoreQuery [''merchantOrderId''] (JStr ''o1'')])
   \<and> webhook_resolve [created_record] (JObj [(''orderReference'', JStr ''k1'')])
       = (JStr ''abc'', [StoreQuery [''response'', ''_id''] (JStr ''k1'')])
   \<and> payment_webhook example_env [created_record] (JObj [(''orderReference'', JStr ''zz'')])
       = ((400, Text ''missing sessionId''), [created_record],
          [StoreQuery [''response'', ''_id''] (JStr ''zz'')])
   \<and> payment_webhook example_env [created_record]
         (JObj [(''merchantOrderId'', JStr ''o2''), (''kashierOrderId'', JStr ''zz'')])
       = ((400, Text ''missing sessionId''), [created_record],
          [StoreQuery [''merchantOrderId''] (JStr ''o2''), StoreQuery [''response'', ''_id''] (JStr ''zz'')])
   \<and> payment_webhook example_env [created_record] JUndefined
       = ((400, Text ''missing sessionId''), [created_record], [])
   \<and> payment_webhook example_env [created_record] (JObj [(''merchantOrderId'', JStr ''o1'')])
       = ((200, Text ''OK''),
          fst (snd (payment_webhook example_env [created_record] (JObj [(''sessionId'', JStr ''abc'')]))),
          StoreQuery [''merchantOrderId''] (JStr ''o1'')
          # snd (snd (payment_webhook example_env [created_record] (JObj [(''sessionId'', JStr ''abc'')]))))"
proof -
  note defs = where_limit1_def created_record_def
  note inst = webhook_resolution_order[where st = "[created_record]" and e = example_env]
  have a: "webhook_resolve [created_record] (JObj [(''sessionId'', JStr ''abc'')]) = (JStr ''abc'', [])"
    using inst[where body = "JObj [(''sessionId'', JStr ''abc'')]"]
    by (simp add: defs)
  have b: "webhook_resolve [created_record] (JObj [(''data'', JObj [(''order'', JStr ''o1'')])])
       = (JStr ''abc'', [StoreQuery [''merchantOrderId''] (JStr ''o1'')])"
    using inst[where body = "JObj [(''data'', JObj [(''order'', JStr ''o1'')])]"]
    by (simp add: defs)
  have c: "webhook_resolve [created_record] (JObj [(''orderReference'', JStr ''k1'')])
       = (JStr ''abc'', [StoreQuery [''response'', ''_id''] (JStr ''k1'')])"
    using inst[where body = "JObj [(''orderReference'', JStr ''k1'')]"]
    by (simp add: defs)
  have d: "payment_webhook example_env [created_record] (JObj [(''orderReference'', JStr ''zz'')])
       = ((400, Text ''missing sessionId''), [created_record],
          [StoreQuery [''response'', ''_id''] (JStr ''zz'')])"
    using inst[where body = "JObj [(''orderReference'', JStr ''zz'')]"]
    by (simp add: defs)
  have d2: "payment_webhook example_env [created_record]
         (JObj [(''merchantOrderId'', JStr ''o2''), (''kashierOrderId'', JStr ''zz'')])
       = ((400, Text ''missing sessionId''), [created_record],
          [StoreQuery [''merchantOrderId''] (JStr ''o2''), StoreQuery [''response'', ''_id''] (JStr ''zz'')])"
    using inst[where body = "JObj [(''merchantOrderId'', JStr ''o2''), (''kashierOrderId'', JStr ''zz'')]"]
    by (simp add: defs)
  have d3: "payment_webhook example_env [created_record] JUndefined
       = ((400, Text ''missing sessionId''), [created_record], [])"
    using inst[where body = JUndefined]
    by (simp add: defs)
  have f: "payment_webhook example_env [created_record] (JObj [(''merchantOrderId'', JStr ''o1'')])
       = ((200, Text ''OK''),
          fst (snd (payment_webhook example_env [created_record] (JObj [(''sessionId'', JStr ''abc'')]))),
          StoreQuery [''merchantOrderId''] (JStr ''o1'')
          # snd (snd (payment_webhook example_env [created_record] (JObj [(''sessionId'', JStr ''abc'')]))))"
  proof -
    have resp: "fst (payment_webhook example_env [created_record] (JObj [(''sessionId'', JStr ''abc'')]))
                  = (200, Text ''OK'')"
      by code_simp
    show ?thesis
      using inst[where body = "JObj [(''merchantOrderId'', JStr ''o1'')]"] resp
      by (simp add: defs)
  qed
  show ?thesis using a b c d d2 d3 f by simp
qed

section \<open>Idempotent reconciliation\<close>













lemma fetch_effects_no_write: "filter is_write (snd (fetchKashierSession e s)) = []"
  by (simp add: fetchKashierSession_def Let_def split: option.splits json_reply.splits)



section \<open>Trust boundary of the webhook\<close>

lemma reconcile_effects_writes:
  "list_all (\<lambda>x. \<not> is_write x \<or> written_status x = get p ''status'')
     (reconcile_effects e st sid p)"
  by (simp add: reconcile_effects_def verified_update_def webhook_record_def
           split: option.splits)

lemma webhook_reconcile_store:
  "(\<exists>err. webhook_reconcile e st sid p = Inl err)
   \<or> webhook_reconcile e st sid p = Inr st
   \<or> (\<exists>i < length st. webhook_reconcile e st sid p = Inr (update_doc st i (verified_update e p)))
   \<or> webhook_reconcile e st sid p = Inr (add_doc st (webhook_record e sid p))"
  using where_limit1_Some[of st "[''sessionId'']" sid]
  by (auto simp: webhook_reconcile_def firestore_update_def firestore_add_def split: option.splits)

lemma webhook_resolve_cong:
  assumes "webhook_direct a = webhook_direct b"
    "webhook_merchantOrderId a = webhook_merchantOrderId b"
    "webhook_kashierOrderId a = webhook_kashierOrderId b"
  shows "webhook_resolve st a = webhook_resolve st b"
  by (simp add: webhook_resolve_def Let_def assms)

lemma payment_webhook_cong:
  assumes "webhook_resolve st (js_or a (JObj [])) = webhook_resolve st (js_or b (JObj []))"
  shows "payment_webhook e st a = payment_webhook e st b"
  by (simp add: payment_webhook_def Let_def assms cong: sum.case_cong if_cong)

text \<open>
  Claim C2. In every run of the webhook handler, a write sets \<open>status\<close> to the status
  of the payment that the gateway verification call returned for the resolved session;
  when the run changes the store, the new store is the old one with that verified update
  applied to one document, or with the document created from the verified payment added.
  The \<open>status\<close> that the notification reports about itself is never read: setting it, at
  the top level or inside \<open>data\<close>, to any value leaves the whole outcome (response,
  store, effects) the same.
\<close>

theorem webhook_trust_boundary:
  fixes st :: store and body :: jsval
  defines "sid \<equiv> fst (webhook_resolve st (js_or body (JObj [])))"
  shows "(\<forall>x \<in> set (snd (snd (payment_webhook e st body))).
            is_write x \<longrightarrow>
              (\<exists>v p. fst (fetchKashierSession e sid) = Inr v \<and> payment_of v = Inr p
                     \<and> written_status x = get p ''status''))
       \<and> (fst (snd (payment_webhook e st body)) \<noteq> st \<longrightarrow>
              (\<exists>v p. fst (fetchKashierSession e sid) = Inr v \<and> payment_of v = Inr p
                     \<and> ((\<exists>i < length st. fst (snd (payment_webhook e st body))
                                           = update_doc st i (verified_update e p))
                        \<or> fst (snd (payment_webhook e st body))
                            = add_doc st (webhook_record e sid p))))
       \<and> payment_webhook e st (JObj (AList.update ''status'' s kvs))
           = payment_webhook e st (JObj kvs)
       \<and> payment_webhook e st
             (JObj (AList.update ''data'' (JObj (AList.update ''status'' s dkvs))
                      (AList.update ''data'' (JObj dkvs) kvs)))
           = payment_webhook e st (JObj (AList.update ''data'' (JObj dkvs) kvs))"
proof -
  let ?evt = "js_or body (JObj [])"
  have noq: "\<And>x. x \<in> set (snd (webhook_resolve st ?evt)) \<Longrightarrow> \<not> is_write x"
    using queries_only[OF webhook_resolve_queries, of st ?evt]
    by (auto simp: filter_empty_conv)
  have nof: "\<And>x. x \<in> set (snd (fetchKashierSession e sid)) \<Longrightarrow> \<not> is_write x"
    using fetch_effects_no_write[of e sid] by (auto simp: filter_empty_conv)
  have a: "\<exists>v p. fst (fetchKashierSession e sid) = Inr v \<and> payment_of v = Inr p
                     \<and> written_status x = get p ''status''"
    if x: "x \<in> set (snd (snd (payment_webhook e st body)))" and w: "is_write x" for x
  proof (cases "truthy sid")
    case False
    then show ?thesis using x w noq by (auto simp: payment_webhook_def Let_def sid_def)
  next
    case True
    show ?thesis
    proof (cases "fst (fetchKashierSession e sid)")
      case (Inl err)
      then show ?thesis using True x w noq nof
        by (auto simp: payment_webhook_def Let_def sid_def)
    next
      case (Inr v)
      show ?thesis
      proof (cases "payment_of v")
        case (Inl err)
        then show ?thesis using True Inr x w noq nof
          by (auto simp: payment_webhook_def Let_def sid_def)
      next
        case p: (Inr p)
        have "x \<in> set (reconcile_effects e st sid p)"
          using True Inr p x w noq nof
          by (auto simp: payment_webhook_def Let_def sid_def split: sum.splits)
        then have "written_status x = get p ''status''"
          using reconcile_effects_writes[of p e st sid] w by (auto simp: list_all_iff)
        then show ?thesis using Inr p by simp
      qed
    qed
  qed
  have b: "\<exists>v p. fst (fetchKashierSession e sid) = Inr v \<and> payment_of v = Inr p
                     \<and> ((\<exists>i < length st. fst (snd (payment_webhook e st body))
                                           = update_doc st i (verified_update e p))
                        \<or> fst (snd (payment_webhook e st body))
                            = add_doc st (webhook_record e sid p))"
    if ch: "fst (snd (payment_webhook e st body)) \<noteq> st"
  proof -
    have t: "truthy sid"
      using ch by (auto simp: payment_webhook_def Let_def sid_def split: if_splits)
    obtain v where v: "fst (fetchKashierSession e sid) = Inr v"
      using ch t by (cases "fst (fetchKashierSession e sid)")
                    (auto simp: payment_webhook_def Let_def sid_def)
    obtain p where p: "payment_of v = Inr p"
      using ch t v by (cases "payment_of v") (auto simp: payment_webhook_def Let_def sid_def)
    have "fst (snd (payment_webhook e st body)) =
            (case webhook_reconcile e st sid p of Inl err \<Rightarrow> st | Inr st' \<Rightarrow> st')"
      using t v p by (simp add: payment_webhook_def Let_def sid_def split: sum.splits)
    then show ?thesis using webhook_reconcile_store[of e st sid p] ch v p by auto
  qed
  have c: "payment_webhook e st (JObj (AList.update ''status'' s kvs)) = payment_webhook e st (JObj kvs)"
    by (rule payment_webhook_cong, simp add: js_or_def, rule webhook_resolve_cong)
       (simp_all add: webhook_direct_def webhook_merchantOrderId_def webhook_kashierOrderId_def
          update_conv')
  have d: "payment_webhook e st
             (JObj (AList.update ''data'' (JObj (AList.update ''status'' s dkvs))
                      (AList.update ''data'' (JObj dkvs) kvs)))
           = payment_webhook e st (JObj (AList.update ''data'' (JObj dkvs) kvs))"
    by (rule payment_webhook_cong, simp add: js_or_def, rule webhook_resolve_cong)
       (simp_all add: webhook_direct_def webhook_merchantOrderId_def webhook_kashierOrderId_def
          update_conv' js_and_def)
  show ?thesis using a b c d by blast
qed


theorem webhook_trust_boundary_witness:
  "payment_webhook declined_env [created_record]
      (JObj [(''sessionId'', JStr ''abc''), (''status'', JStr ''PAID'')])
     = payment_webhook declined_env [created_record] (JObj [(''sessionId'', JStr ''abc'')])
   \<and> map written_status
         (filter is_write
            (snd (snd (payment_webhook declined_env [created_record]
                         (JObj [(''sessionId'', JStr ''abc''), (''status'', JStr ''PAID'')])))))
       = [JStr ''FAILED'']
   \<and> get (JObj (hd (fst (snd (payment_webhook declined_env [created_record]
                         (JObj [(''sessionId'', JStr ''abc''), (''status'', JStr ''PAID'')])))))) ''status''
       = JStr ''FAILED''"
proof -
  let ?b = "JObj [(''sessionId'', JStr ''abc'')]"
  have u: "AList.update ''status'' (JStr ''PAID'') [(''sessionId'', JStr ''abc'')]
             = [(''sessionId'', JStr ''abc''), (''status'', JStr ''PAID'')]"
    by simp
  have run: "payment_webhook declined_env [created_record] ?b
      = ((200, Text ''OK''),
         [update_fields created_record (verified_update declined_env (JObj [(''status'', JStr ''FAILED'')]))],
         [KashierVerify ''https://test-api.kashier.io/v3/payment/sessions/abc/payment'',
          StoreQuery [''sessionId''] (JStr ''abc''),
          StoreUpdate 0 (verified_update declined_env (JObj [(''status'', JStr ''FAILED'')]))])"
    by code_simp
  have same: "payment_webhook declined_env [created_record]
                 (JObj (AList.update ''status'' (JStr ''PAID'') [(''sessionId'', JStr ''abc'')]))
               = payment_webhook declined_env [created_record] ?b"
    by (rule webhook_trust_boundary[THEN conjunct2, THEN conjunct2, THEN conjunct1])
  show ?thesis
    using same unfolding u run
    by (simp add: verified_update_def map_of_update_fields)
qed

section \<open>The document created by the webhook\<close>







section \<open>Status of an unknown payment\<close>




lemma find_payment_None_string:
  "fst (find_payment st m s) = Inr None \<Longrightarrow> truthy s \<Longrightarrow> \<exists>x. String_js s = Some x"
  by (auto simp: find_payment_def Let_def split: if_splits option.splits)



lemma String_js_JStr: "String_js (JStr x) = Some x"
  by simp





section \<open>Dispatch of the receipt\<close>












section \<open>Creation of a session\<close>









section \<open>Validation of a session request\<close>

text \<open>The rejections that the handler makes: a missing amount or redirect, and an
  amount whose number is at most 0, give 400 with no provider call and no write.\<close>

lemma session_validation_rejects:
  assumes "\<not> truthy (get (js_or body (JObj [])) ''amount'')
           \<or> \<not> truthy (get (js_or body (JObj [])) ''merchantRedirect'')
           \<or> (\<exists>n. Number_js (get (js_or body (JObj [])) ''amount'') = Some n \<and> num_le0 n)"
  shows "fst (fst (payment_session e st body)) = 400
       \<and> fst (snd (payment_session e st body)) = st
       \<and> snd (snd (payment_session e st body)) = []"
  using assms by (auto simp: payment_session_def Let_def)

text \<open>
  Claim C7 says that a request whose amount fails the check \<open>Number(amount) > 0\<close> is
  answered 400 with no provider call and no store write. The handler tests
  \<open>Number(amount) <= 0\<close>, which is false for \<open>NaN\<close>: for the amount \<open>"abc"\<close>, whose
  number is \<open>NaN\<close> and so not greater than 0, in every environment and store the answer
  is not 400 and the first effect is the call that creates the session at the provider,
  with \<open>amount = "abc"\<close> in the payload.
\<close>

theorem session_nan_amount_reaches_provider:
  "fst (fst (payment_session e st nan_request)) \<noteq> 400
   \<and> Number_js (get nan_request ''amount'') = Some NaN
   \<and> \<not> num_gt0 NaN
   \<and> (\<exists>payload. hd (snd (snd (payment_session e st nan_request)))
                    = KashierCreate (session_endpoint e) payload
                  \<and> get payload ''amount'' = JStr ''abc'')"
proof -
  have n: "Number_js (JStr ''abc'') = Some NaN"
    by code_simp
  obtain payload where p: "session_payload e nan_request = Inr payload"
                   and a: "get payload ''amount'' = JStr ''abc''"
    by (simp add: session_payload_def nan_request_def Let_def req_order_def dflt_def)
  show ?thesis
    using n p a
    by (auto simp: payment_session_def Let_def nan_request_def js_or_def error_json_def
             split: json_reply.splits option.splits sum.splits)
qed

theorem session_nan_amount_reaches_provider_witness:
  "fst (fst (payment_session example_env [] nan_request)) \<noteq> 400
   \<and> fst (fst (payment_session example_env [] nan_request)) = 200
   \<and> get (JObj (hd (fst (snd (payment_session example_env [] nan_request))))) ''amount''
       = JStr ''abc''"
proof -
  have a: "fst (fst (payment_session example_env [] nan_request)) = 200
   \<and> get (JObj (hd (fst (snd (payment_session example_env [] nan_request))))) ''amount''
       = JStr ''abc''"
    by code_simp
  have b: "fst (fst (payment_session example_env [] nan_request)) \<noteq> 400"
    using session_nan_amount_reaches_provider[of example_env "[]"] by blast
  show ?thesis using a b by blast
qed

end
